theory Spec2Isabelle
  imports Complex_Main
begin

section \<open>The ROI calculator of \<^verbatim>\<open>ROI_Calc.py\<close>\<close>

text \<open>
  The development embeds the function \<^verbatim>\<open>calculate_roi_agentiq\<close> (lines 32 to 85 of
  \<^verbatim>\<open>ROI_Calc.py\<close>), the only part of the module that computes anything; the rest builds
  widgets, charts and a report from its result.

  Numbers. The function is written for any Python number; the module's widgets give it
  binary floating-point numbers, and an \<^verbatim>\<open>int\<close> for \<^verbatim>\<open>people_removed\<close>. The model idealises
  the thirteen arguments as rationals (\<^typ>\<open>rat\<close>) with exact \<open>+\<close>, \<open>-\<close>, \<open>*\<close>, \<open>/\<close> and
  \<open><\<close>. The rounding error, the infinities and the NaN of binary floating point are
  outside the model, and no theorem below speaks about them.
\<close>

subsection \<open>Data\<close>

text \<open>The thirteen parameters of \<^verbatim>\<open>calculate_roi_agentiq\<close>, in the order of its signature.\<close>

record roi_input =
  revenue_increase :: rat
  cost_savings :: rat
  productivity_gains :: rat
  development_costs :: rat
  maintenance_costs :: rat
  training_costs :: rat
  licensing_costs :: rat
  cloud_costs :: rat
  support_ops_costs :: rat
  people_removed :: rat
  average_salary :: rat
  time_saved_hours :: rat
  hourly_rate :: rat

text \<open>
  The exceptions the body can raise: the two \<^verbatim>\<open>ValueError\<close>s of the validation, with their
  messages, and the \<^verbatim>\<open>ZeroDivisionError\<close> of Python's \<^verbatim>\<open>/\<close>.
\<close>

datatype error = ValueError string | ZeroDivisionError

text \<open>
  The six local variables the body has computed when it reaches its \<^verbatim>\<open>return\<close>
  (lines 65 to 76), before they are formatted.
\<close>

record roi_metrics =
  total_benefits :: rat
  total_costs :: rat
  net_benefits :: rat
  roi :: rat
  people_cost_reduction :: rat
  time_saved_value :: rat

subsection \<open>Arithmetic that can fail\<close>

text \<open>Python's true division raises on a zero divisor; HOL's \<open>x / 0\<close> is \<open>0\<close>.\<close>

definition truediv :: "rat \<Rightarrow> rat \<Rightarrow> error + rat" where
  "truediv a b = (if b = 0 then Inl ZeroDivisionError else Inr (a / b))"

subsection \<open>The format specification \<^verbatim>\<open>,.2f\<close>\<close>

text \<open>
  \<^verbatim>\<open>f"{x:,.2f}"\<close> rounds \<open>x\<close> to the nearest multiple of \<open>1/100\<close>, a tie going to the
  even multiple, and prints the sign of \<open>x\<close> (a minus for every negative \<open>x\<close>, also when
  the rounded value is zero), the integer digits in groups of three separated by commas,
  a point, and two fraction digits. The format characters are Python's; the source only
  names the specification \<^verbatim>\<open>,.2f\<close>.
\<close>

definition round_half_even :: "rat \<Rightarrow> int" where
  "round_half_even x =
     (let f = \<lfloor>x\<rfloor>; d = x - of_int f
      in if d < 1 / 2 then f
         else if 1 / 2 < d then f + 1
         else if even f then f else f + 1)"

definition digit_char :: "nat \<Rightarrow> char" where
  "digit_char n = ''0123456789'' ! (n mod 10)"

definition two_digits :: "nat \<Rightarrow> string" where
  "two_digits n = [digit_char (n div 10), digit_char n]"

definition three_digits :: "nat \<Rightarrow> string" where
  "three_digits n = [digit_char (n div 100), digit_char (n div 10), digit_char n]"

fun digits :: "nat \<Rightarrow> string" where
  "digits n = (if n < 10 then [digit_char n] else digits (n div 10) @ [digit_char n])"

fun group_thousands :: "nat \<Rightarrow> string" where
  "group_thousands n =
     (if n < 1000 then digits n
      else group_thousands (n div 1000) @ '','' @ three_digits (n mod 1000))"

definition format_2f :: "rat \<Rightarrow> string" where
  "format_2f x =
     (let q = nat (round_half_even (\<bar>x\<bar> * 100))
      in (if x < 0 then ''-'' else '''') @
         group_thousands (q div 100) @ ''.'' @ two_digits (q mod 100))"

subsection \<open>\<^verbatim>\<open>calculate_roi_agentiq\<close>\<close>

text \<open>
  Lines 56 to 63: the input validation. The first test runs \<^verbatim>\<open>any(param < 0 for ...)\<close>
  over the twelve parameters other than \<^verbatim>\<open>people_removed\<close>, the second tests
  \<^verbatim>\<open>people_removed\<close>.
\<close>

definition validate :: "'a roi_input_scheme \<Rightarrow> error + unit" where
  "validate i =
     (if list_ex (\<lambda>param. param < 0)
           [revenue_increase i, cost_savings i, productivity_gains i,
            development_costs i, maintenance_costs i, training_costs i,
            licensing_costs i, cloud_costs i, support_ops_costs i,
            average_salary i, time_saved_hours i, hourly_rate i]
      then Inl (ValueError ''Inputs must be non-negative values.'')
      else if people_removed i < 0
      then Inl (ValueError ''Number of people removed cannot be negative.'')
      else Inr ())"

text \<open>
  Lines 65 to 76: the six metrics. The conditional expression evaluates the division only
  when \<^verbatim>\<open>total_costs != 0\<close>.
\<close>

definition compute_metrics :: "'a roi_input_scheme \<Rightarrow> error + roi_metrics" where
  "compute_metrics i =
     (case validate i of
        Inl e \<Rightarrow> Inl e
      | Inr _ \<Rightarrow>
         (let tsv = time_saved_hours i * hourly_rate i;
              pcr = people_removed i * average_salary i;
              tb = revenue_increase i + cost_savings i + productivity_gains i + tsv + pcr;
              tc = development_costs i + maintenance_costs i + training_costs i +
                   licensing_costs i + cloud_costs i + support_ops_costs i;
              nb = tb - tc
          in (case (if tc \<noteq> 0
                    then (case truediv nb tc of Inl e \<Rightarrow> Inl e | Inr r \<Rightarrow> Inr (r * 100))
                    else Inr 0) of
                Inl e \<Rightarrow> Inl e
              | Inr r \<Rightarrow>
                  Inr \<lparr>total_benefits = tb, total_costs = tc, net_benefits = nb, roi = r,
                       people_cost_reduction = pcr, time_saved_value = tsv\<rparr>)))"

text \<open>Lines 78 to 85: the dictionary returned, its keys in the order of the literal.\<close>

definition format_results :: "roi_metrics \<Rightarrow> (string \<times> string) list" where
  "format_results m =
     [(''Total Benefits'', format_2f (total_benefits m)),
      (''Total Costs'', format_2f (total_costs m)),
      (''Net Benefits'', format_2f (net_benefits m)),
      (''ROI (%)'', format_2f (roi m)),
      (''People Cost Reduction'', format_2f (people_cost_reduction m)),
      (''Time Saved Value'', format_2f (time_saved_value m))]"

definition calculate_roi_agentiq :: "'a roi_input_scheme \<Rightarrow> error + (string \<times> string) list" where
  "calculate_roi_agentiq i =
     (case compute_metrics i of Inl e \<Rightarrow> Inl e | Inr m \<Rightarrow> Inr (format_results m))"

subsection \<open>Valid inputs\<close>

text \<open>An input is valid when none of its thirteen fields is negative.\<close>

definition non_negative_input :: "'a roi_input_scheme \<Rightarrow> bool" where
  "non_negative_input i \<longleftrightarrow>
     0 \<le> revenue_increase i \<and> 0 \<le> cost_savings i \<and> 0 \<le> productivity_gains i \<and>
     0 \<le> development_costs i \<and> 0 \<le> maintenance_costs i \<and> 0 \<le> training_costs i \<and>
     0 \<le> licensing_costs i \<and> 0 \<le> cloud_costs i \<and> 0 \<le> support_ops_costs i \<and>
     0 \<le> people_removed i \<and> 0 \<le> average_salary i \<and> 0 \<le> time_saved_hours i \<and>
     0 \<le> hourly_rate i"


text \<open>
  The default values of the module's widgets (lines 88 to 115), which are also the
  specification's scenario B.
\<close>

definition scenario_B :: roi_input where
  "scenario_B = \<lparr>revenue_increase = 100000, cost_savings = 50000, productivity_gains = 30000,
     development_costs = 80000, maintenance_costs = 20000, training_costs = 10000,
     licensing_costs = 15000, cloud_costs = 20000, support_ops_costs = 10000,
     people_removed = 5, average_salary = 60000, time_saved_hours = 2000, hourly_rate = 50\<rparr>"

text \<open>The same benefits with every cost zero.\<close>

definition scenario_no_costs :: roi_input where
  "scenario_no_costs = \<lparr>revenue_increase = 100000, cost_savings = 50000, productivity_gains = 30000,
     development_costs = 0, maintenance_costs = 0, training_costs = 0,
     licensing_costs = 0, cloud_costs = 0, support_ops_costs = 0,
     people_removed = 5, average_salary = 60000, time_saved_hours = 2000, hourly_rate = 50\<rparr>"



subsection \<open>Formatted decimals\<close>





section \<open>Properties\<close>

declare digits.simps [simp del] group_thousands.simps [simp del]

subsection \<open>Validation\<close>


lemma validate_valid: "non_negative_input i \<Longrightarrow> validate i = Inr ()"
  by (simp add: validate_def non_negative_input_def not_less)



text \<open>On a valid input the body runs to its \<^verbatim>\<open>return\<close>, with these six values.\<close>

lemma compute_metrics_valid:
  assumes "non_negative_input i"
  shows "compute_metrics i =
    Inr \<lparr>total_benefits = revenue_increase i + cost_savings i + productivity_gains i +
            time_saved_hours i * hourly_rate i + people_removed i * average_salary i,
         total_costs = development_costs i + maintenance_costs i + training_costs i +
            licensing_costs i + cloud_costs i + support_ops_costs i,
         net_benefits = revenue_increase i + cost_savings i + productivity_gains i +
            time_saved_hours i * hourly_rate i + people_removed i * average_salary i -
            (development_costs i + maintenance_costs i + training_costs i +
             licensing_costs i + cloud_costs i + support_ops_costs i),
         roi = (if development_costs i + maintenance_costs i + training_costs i +
                   licensing_costs i + cloud_costs i + support_ops_costs i \<noteq> 0
                then (revenue_increase i + cost_savings i + productivity_gains i +
                      time_saved_hours i * hourly_rate i + people_removed i * average_salary i -
                      (development_costs i + maintenance_costs i + training_costs i +
                       licensing_costs i + cloud_costs i + support_ops_costs i)) /
                     (development_costs i + maintenance_costs i + training_costs i +
                      licensing_costs i + cloud_costs i + support_ops_costs i) * 100
                else 0),
         people_cost_reduction = people_removed i * average_salary i,
         time_saved_value = time_saved_hours i * hourly_rate i\<rparr>"
  by (simp add: compute_metrics_def validate_valid [OF assms] truediv_def Let_def)

lemma scenario_B_valid: "non_negative_input scenario_B"
  by (simp add: non_negative_input_def scenario_B_def)

subsection \<open>The formulas of the metrics\<close>



subsection \<open>The only failure is the validation error\<close>


subsection \<open>Rounding and formatting of particular values\<close>

text \<open>A rational strictly within a half of an integer rounds to that integer.\<close>

lemma round_half_even_unique:
  assumes "of_int n - 1 / 2 < x" and "x < of_int n + 1 / 2"
  shows "round_half_even x = n"
proof -
  consider "\<lfloor>x\<rfloor> = n" | "\<lfloor>x\<rfloor> = n - 1"
    using assms by linarith
  then show ?thesis
  proof cases
    case 1
    with assms show ?thesis by (simp add: round_half_even_def Let_def)
  next
    case 2
    with assms show ?thesis by (simp add: round_half_even_def Let_def)
  qed
qed

lemma format_2f_zero: "format_2f 0 = ''0.00''"
  by (simp add: format_2f_def round_half_even_def group_thousands.simps [of 0] digits.simps [of 0]
      two_digits_def digit_char_def)

subsection \<open>The scenarios\<close>

lemma scenario_no_costs_valid: "non_negative_input scenario_no_costs"
  by (simp add: non_negative_input_def scenario_no_costs_def)


lemma scenario_B_metrics:
  "compute_metrics scenario_B =
     Inr \<lparr>total_benefits = 580000, total_costs = 155000, net_benefits = 425000,
          roi = 8500 / 31, people_cost_reduction = 300000, time_saved_value = 100000\<rparr>"
  unfolding compute_metrics_valid [OF scenario_B_valid] by (simp add: scenario_B_def)

lemma scenario_no_costs_metrics:
  "compute_metrics scenario_no_costs =
     Inr \<lparr>total_benefits = 580000, total_costs = 0, net_benefits = 580000,
          roi = 0, people_cost_reduction = 300000, time_saved_value = 100000\<rparr>"
  unfolding compute_metrics_valid [OF scenario_no_costs_valid]
  by (simp add: scenario_no_costs_def)



subsection \<open>Zero costs\<close>

text \<open>
  Claim C3. For every valid (all-non-negative) input whose total costs are zero, the
  function returns rather than fails, and the ROI it has computed is zero (formatted as
  \<^verbatim>\<open>0.00\<close>). The division by the total costs is not evaluated: it would raise
  \<^verbatim>\<open>ZeroDivisionError\<close>, and the call returns a result.
\<close>

theorem roi_zero_when_no_costs:
  assumes "non_negative_input i"
    and "development_costs i + maintenance_costs i + training_costs i +
         licensing_costs i + cloud_costs i + support_ops_costs i = 0"
  shows "\<exists>m. compute_metrics i = Inr m \<and> total_costs m = 0 \<and> roi m = 0 \<and>
           truediv (net_benefits m) (total_costs m) = Inl ZeroDivisionError \<and>
           calculate_roi_agentiq i = Inr (format_results m) \<and>
           map_of (format_results m) ''ROI (%)'' = Some ''0.00''"
  using compute_metrics_valid [OF assms(1)] assms(2)
  by (simp add: calculate_roi_agentiq_def truediv_def format_results_def format_2f_zero)

theorem roi_zero_when_no_costs_witness:
  "non_negative_input scenario_no_costs \<and>
   development_costs scenario_no_costs + maintenance_costs scenario_no_costs +
     training_costs scenario_no_costs + licensing_costs scenario_no_costs +
     cloud_costs scenario_no_costs + support_ops_costs scenario_no_costs = 0 \<and>
   (\<exists>m. compute_metrics scenario_no_costs = Inr m \<and> net_benefits m = 580000 \<and> roi m = 0 \<and>
      map_of (format_results m) ''ROI (%)'' = Some ''0.00'')"
proof -
  have z: "development_costs scenario_no_costs + maintenance_costs scenario_no_costs +
     training_costs scenario_no_costs + licensing_costs scenario_no_costs +
     cloud_costs scenario_no_costs + support_ops_costs scenario_no_costs = 0"
    by (simp add: scenario_no_costs_def)
  from roi_zero_when_no_costs [OF scenario_no_costs_valid z]
  obtain m where m: "compute_metrics scenario_no_costs = Inr m" "roi m = 0"
    "map_of (format_results m) ''ROI (%)'' = Some ''0.00''"
    by blast
  from m(1) have "net_benefits m = 580000"
    by (auto simp add: scenario_no_costs_metrics)
  with m z scenario_no_costs_valid show ?thesis by blast
qed

subsection \<open>The ROI formula\<close>



subsection \<open>Net benefits\<close>



subsection \<open>A lower bound of the ROI\<close>



subsection \<open>No integrality constraint on \<^verbatim>\<open>people_removed\<close>\<close>



subsection \<open>Determinism\<close>



subsection \<open>Every formatted value is a formatted decimal\<close>




lemma digits_below_10: "n < 10 \<Longrightarrow> digits n = [digit_char n]"
  by (simp add: digits.simps [of n])

lemma digits_below_100:
  assumes "10 \<le> n" and "n < 100"
  shows "digits n = [digit_char (n div 10), digit_char n]"
proof -
  from assms have "n div 10 < 10" by simp
  then have "digits (n div 10) = [digit_char (n div 10)]" by (rule digits_below_10)
  with assms show ?thesis by (simp add: digits.simps [of n])
qed

lemma digits_below_1000:
  assumes "100 \<le> n" and "n < 1000"
  shows "digits n = [digit_char (n div 100), digit_char (n div 10), digit_char n]"
proof -
  from assms have "10 \<le> n div 10" "n div 10 < 100" by simp_all
  then have "digits (n div 10) = [digit_char (n div 10 div 10), digit_char (n div 10)]"
    by (rule digits_below_100)
  moreover have "n div 10 div 10 = n div 100" by (simp add: div_mult2_eq [symmetric])
  ultimately show ?thesis using assms by (simp add: digits.simps [of n])
qed











subsection \<open>The output of scenario B\<close>

text \<open>Formatting a non-negative value whose number of hundredths is known.\<close>

lemma format_2f_cents:
  assumes "0 \<le> x" and "round_half_even (x * 100) = int q"
  shows "format_2f x = group_thousands (q div 100) @ ''.'' @ two_digits (q mod 100)"
  using assms by (simp add: format_2f_def Let_def)

lemma group_thousands_below_million:
  assumes "1000 \<le> n" and "n < 1000000"
  shows "group_thousands n = digits (n div 1000) @ '','' @ three_digits (n mod 1000)"
proof -
  from assms have "n div 1000 < 1000" by simp
  then have "group_thousands (n div 1000) = digits (n div 1000)"
    by (simp add: group_thousands.simps [of "n div 1000"])
  with assms show ?thesis by (simp add: group_thousands.simps [of n])
qed

lemma round_half_even_of_nat: "round_half_even (of_nat n) = int n"
  by (simp add: round_half_even_def)

lemma format_2f_580000: "format_2f 580000 = ''580,000.00''"
proof -
  have "round_half_even (580000 * 100) = int 58000000"
    using round_half_even_of_nat [of 58000000] by simp
  then have "format_2f 580000 = group_thousands (58000000 div 100) @ ''.'' @ two_digits (58000000 mod 100)"
    by (intro format_2f_cents) simp_all
  then show ?thesis
    by (simp add: group_thousands_below_million digits_below_1000 three_digits_def two_digits_def
        digit_char_def)
qed

lemma format_2f_155000: "format_2f 155000 = ''155,000.00''"
proof -
  have "round_half_even (155000 * 100) = int 15500000"
    using round_half_even_of_nat [of 15500000] by simp
  then have "format_2f 155000 = group_thousands (15500000 div 100) @ ''.'' @ two_digits (15500000 mod 100)"
    by (intro format_2f_cents) simp_all
  then show ?thesis
    by (simp add: group_thousands_below_million digits_below_1000 three_digits_def two_digits_def
        digit_char_def)
qed

lemma format_2f_425000: "format_2f 425000 = ''425,000.00''"
proof -
  have "round_half_even (425000 * 100) = int 42500000"
    using round_half_even_of_nat [of 42500000] by simp
  then have "format_2f 425000 = group_thousands (42500000 div 100) @ ''.'' @ two_digits (42500000 mod 100)"
    by (intro format_2f_cents) simp_all
  then show ?thesis
    by (simp add: group_thousands_below_million digits_below_1000 three_digits_def two_digits_def
        digit_char_def)
qed

lemma format_2f_300000: "format_2f 300000 = ''300,000.00''"
proof -
  have "round_half_even (300000 * 100) = int 30000000"
    using round_half_even_of_nat [of 30000000] by simp
  then have "format_2f 300000 = group_thousands (30000000 div 100) @ ''.'' @ two_digits (30000000 mod 100)"
    by (intro format_2f_cents) simp_all
  then show ?thesis
    by (simp add: group_thousands_below_million digits_below_1000 three_digits_def two_digits_def
        digit_char_def)
qed

lemma format_2f_100000: "format_2f 100000 = ''100,000.00''"
proof -
  have "round_half_even (100000 * 100) = int 10000000"
    using round_half_even_of_nat [of 10000000] by simp
  then have "format_2f 100000 = group_thousands (10000000 div 100) @ ''.'' @ two_digits (10000000 mod 100)"
    by (intro format_2f_cents) simp_all
  then show ?thesis
    by (simp add: group_thousands_below_million digits_below_1000 three_digits_def two_digits_def
        digit_char_def)
qed

lemma format_2f_roi_B: "format_2f (8500 / 31) = ''274.19''"
proof -
  have "round_half_even (8500 / 31 * 100) = 27419"
    by (rule round_half_even_unique) simp_all
  then have "round_half_even (8500 / 31 * 100) = int 27419" by simp
  then have "format_2f (8500 / 31) = group_thousands (27419 div 100) @ ''.'' @ two_digits (27419 mod 100)"
    by (intro format_2f_cents) simp_all
  then show ?thesis
    by (simp add: group_thousands.simps [of 274] digits_below_1000 two_digits_def digit_char_def)
qed

lemma scenario_B_output:
  "calculate_roi_agentiq scenario_B =
     Inr [(''Total Benefits'', ''580,000.00''), (''Total Costs'', ''155,000.00''),
          (''Net Benefits'', ''425,000.00''), (''ROI (%)'', ''274.19''),
          (''People Cost Reduction'', ''300,000.00''), (''Time Saved Value'', ''100,000.00'')]"
  by (simp add: calculate_roi_agentiq_def scenario_B_metrics format_results_def
      format_2f_580000 format_2f_155000 format_2f_425000 format_2f_roi_B format_2f_300000
      format_2f_100000)

subsection \<open>The format of the output\<close>



subsection \<open>Scenario B\<close>

text \<open>
  Claim C8. On the input of scenario B the function succeeds, with
  \<open>time_saved_value = 100000\<close>, \<open>people_cost_reduction = 300000\<close>,
  \<open>total_benefits = 580000\<close>, \<open>total_costs = 155000\<close>, \<open>net_benefits = 425000\<close> and an ROI
  within half a hundredth of \<open>274.19\<close>, which is formatted as \<^verbatim>\<open>274.19\<close>.
\<close>

theorem scenario_B_result:
  "\<exists>m. compute_metrics scenario_B = Inr m \<and>
      time_saved_value m = 100000 \<and> people_cost_reduction m = 300000 \<and>
      total_benefits m = 580000 \<and> total_costs m = 155000 \<and> net_benefits m = 425000 \<and>
      \<bar>roi m - 27419 / 100\<bar> < 1 / 200 \<and>
      calculate_roi_agentiq scenario_B =
        Inr [(''Total Benefits'', ''580,000.00''), (''Total Costs'', ''155,000.00''),
             (''Net Benefits'', ''425,000.00''), (''ROI (%)'', ''274.19''),
             (''People Cost Reduction'', ''300,000.00''), (''Time Saved Value'', ''100,000.00'')]"
  by (simp add: scenario_B_metrics scenario_B_output)

end
